theory Spec2Isabelle
  imports Complex_Main "HOL-Library.Multiset" "HOL-Library.Char_ord" "HOL-Library.List_Lexorder"
begin

section \<open>Data model (init_db)\<close>

text \<open>
  The three tables created by \<open>init_db\<close>. A nullable column is an \<open>option\<close>.
  Amounts are SQL REAL / Python float in the source; here they are exact rationals, so
  rounding of sums, overflow and underflow are not part of the model.
  Python \<open>str\<close> values are \<open>string\<close>s holding the UTF-8 bytes of the text.
\<close>

type_synonym money = rat

record department =
  d_id :: int
  d_name :: string
  d_emoji :: "string option"

record employee =
  e_id :: int
  e_full_name :: string
  e_telegram_user_id :: "int option"
  e_department_id :: int
  e_role :: string
  e_position :: "string option"
  e_salary :: "money option"
  e_is_active :: int

record accrual =
  a_id :: int
  a_employee_id :: int
  a_amount :: money
  a_kind :: string
  a_comment :: "string option"
  a_period :: "string option"
  a_created_at :: string
  a_created_by :: "int option"

record db =
  departments :: "department list"
  employees :: "employee list"
  accruals :: "accrual list"

text \<open>
  Exceptions of the sqlite3 module. A store whose \<open>fault\<close> is \<open>Some e\<close> raises \<open>e\<close> on
  every statement (file unreadable, corrupt, locked) for the duration of one call;
  \<open>get_db\<close> followed by \<open>cur.execute\<close> is then \<open>Inl e\<close>.
\<close>

datatype error = OperationalError | IntegrityError

record store =
  fault :: "error option"
  tables :: db

definition get_db :: "store \<Rightarrow> error + db" where
  "get_db st = (case fault st of Some e \<Rightarrow> Inl e | None \<Rightarrow> Inr (tables st))"

text \<open>\<open>logging.error\<close> and \<open>logging.info\<close> calls, tagged with the function that logs.\<close>

datatype log_entry = LogError string error | LogInfo string

record settings =
  superadmins :: "int list"

subsection \<open>SQL helpers\<close>

text \<open>\<open>SUM\<close> over no rows is NULL; \<open>COALESCE(x, d)\<close> replaces NULL by \<open>d\<close>.\<close>

definition sql_sum :: "money list \<Rightarrow> money option" where
  "sql_sum xs = (if xs = [] then None else Some (sum_list xs))"

definition coalesce :: "'a option \<Rightarrow> 'a \<Rightarrow> 'a" where
  "coalesce x d = (case x of None \<Rightarrow> d | Some v \<Rightarrow> v)"

text \<open>
  \<open>INTEGER PRIMARY KEY AUTOINCREMENT\<close>: the new rowid is one more than the largest
  rowid ever used. No statement of the program deletes rows, so that is the largest
  rowid present; the first row of a table gets 1.
\<close>

definition new_rowid :: "int list \<Rightarrow> int" where
  "new_rowid ids = (if ids = [] then 1 else Max (set ids) + 1)"

section \<open>Roles (get_user_role)\<close>

definition ROLE_SUPERADMIN :: string where "ROLE_SUPERADMIN = ''superadmin''"
definition ROLE_MANAGER :: string where "ROLE_MANAGER = ''manager''"
definition ROLE_EMPLOYEE :: string where "ROLE_EMPLOYEE = ''employee''"
definition ROLE_UNKNOWN :: string where "ROLE_UNKNOWN = ''unknown''"

text \<open>
  \<open>SELECT role FROM employees WHERE telegram_user_id = ? AND is_active = 1\<close>, then
  \<open>fetchone\<close>: the first matching row, if any.
\<close>

definition get_user_role :: "settings \<Rightarrow> store \<Rightarrow> int \<Rightarrow> string \<times> log_entry list" where
  "get_user_role cfg st user_id =
     (if user_id \<in> set (superadmins cfg) then (ROLE_SUPERADMIN, [])
      else
        (case get_db st of
           Inl e \<Rightarrow> (ROLE_UNKNOWN, [LogError ''get_user_role'' e])
         | Inr d \<Rightarrow>
             (case find (\<lambda>r. e_telegram_user_id r = Some user_id \<and> e_is_active r = 1) (employees d) of
                Some row \<Rightarrow> (if e_role row = ''manager'' then ROLE_MANAGER else ROLE_EMPLOYEE, [])
              | None \<Rightarrow> (ROLE_UNKNOWN, []))))"

section \<open>Ledger store\<close>

text \<open>
  \<open>add_accrual\<close>: one INSERT into \<open>accruals\<close>. The callers pass \<open>data.get(...)\<close> results,
  which may be \<open>None\<close>; the NOT NULL constraints on \<open>employee_id\<close> and \<open>amount\<close> and the
  CHECK constraint on \<open>kind\<close> make the INSERT raise \<open>IntegrityError\<close>. The function logs
  and re-raises every exception. \<open>now\<close> is \<open>datetime.now(timezone.utc).isoformat()\<close>.
\<close>

definition accrual_kinds :: "string list" where
  "accrual_kinds = [''salary'', ''bonus'', ''deduction'', ''advance'', ''payout'']"

definition add_accrual ::
  "store \<Rightarrow> string \<Rightarrow> int option \<Rightarrow> money option \<Rightarrow> string \<Rightarrow> string \<Rightarrow> int
     \<Rightarrow> (error + store) \<times> log_entry list" where
  "add_accrual st now employee_id amount kind comment created_by =
     (case get_db st of
        Inl e \<Rightarrow> (Inl e, [LogError ''add_accrual'' e])
      | Inr d \<Rightarrow>
          (case (employee_id, amount) of
             (Some emp, Some amt) \<Rightarrow>
               (if kind \<in> set accrual_kinds then
                  (Inr (st\<lparr>tables := d\<lparr>accruals := accruals d @
                     [\<lparr>a_id = new_rowid (map a_id (accruals d)), a_employee_id = emp,
                       a_amount = amt, a_kind = kind, a_comment = Some comment,
                       a_period = None, a_created_at = now,
                       a_created_by = Some created_by\<rparr>]\<rparr>\<rparr>),
                   [LogInfo ''add_accrual''])
                else (Inl IntegrityError, [LogError ''add_accrual'' IntegrityError]))
           | _ \<Rightarrow> (Inl IntegrityError, [LogError ''add_accrual'' IntegrityError])))"

text \<open>
  \<open>get_employee_balance\<close>: the aggregate SELECT returns one row; Python then reads
  \<open>row["balance"]\<close>, falling back to 0.0 when it is \<open>None\<close>, and returns 0.0 on any
  exception after logging it.
\<close>

definition balance_row :: "db \<Rightarrow> int \<Rightarrow> money option" where
  "balance_row d employee_id =
     (let rows = filter (\<lambda>a. a_employee_id a = employee_id) (accruals d) in
      Some (coalesce (sql_sum (map (\<lambda>a. if a_kind a \<in> set [''salary'', ''bonus'']
                                         then a_amount a else 0) rows)) 0
          - coalesce (sql_sum (map (\<lambda>a. if a_kind a \<in> set [''payout'', ''advance'', ''deduction'']
                                         then a_amount a else 0) rows)) 0))"

definition get_employee_balance :: "store \<Rightarrow> int \<Rightarrow> money \<times> log_entry list" where
  "get_employee_balance st employee_id =
     (case get_db st of
        Inl e \<Rightarrow> (0, [LogError ''get_employee_balance'' e])
      | Inr d \<Rightarrow> (case balance_row d employee_id of Some b \<Rightarrow> b | None \<Rightarrow> 0, []))"



section \<open>Python string operations\<close>

text \<open>
  \<open>str.strip()\<close> removes the Unicode whitespace characters from both ends. They are
  listed here by their UTF-8 bytes: U+0009 to U+000D, U+001C to U+001F, U+0020, U+0085,
  U+00A0, U+1680, U+2000 to U+200A, U+2028, U+2029, U+202F, U+205F and U+3000.
\<close>

definition ascii_space :: "string list" where
  "ascii_space = [[CHR 0x20], [CHR 0x09], [CHR 0x0A], [CHR 0x0B], [CHR 0x0C], [CHR 0x0D]]"

definition separator_space :: "string list" where
  "separator_space = [[CHR 0x1C], [CHR 0x1D], [CHR 0x1E], [CHR 0x1F]]"

definition unicode_space :: "string list" where
  "unicode_space =
     [[CHR 0xC2, CHR 0x85], [CHR 0xC2, CHR 0xA0], [CHR 0xE1, CHR 0x9A, CHR 0x80],
      [CHR 0xE2, CHR 0x80, CHR 0x80], [CHR 0xE2, CHR 0x80, CHR 0x81],
      [CHR 0xE2, CHR 0x80, CHR 0x82], [CHR 0xE2, CHR 0x80, CHR 0x83],
      [CHR 0xE2, CHR 0x80, CHR 0x84], [CHR 0xE2, CHR 0x80, CHR 0x85],
      [CHR 0xE2, CHR 0x80, CHR 0x86], [CHR 0xE2, CHR 0x80, CHR 0x87],
      [CHR 0xE2, CHR 0x80, CHR 0x88], [CHR 0xE2, CHR 0x80, CHR 0x89],
      [CHR 0xE2, CHR 0x80, CHR 0x8A], [CHR 0xE2, CHR 0x80, CHR 0xA8],
      [CHR 0xE2, CHR 0x80, CHR 0xA9], [CHR 0xE2, CHR 0x80, CHR 0xAF],
      [CHR 0xE2, CHR 0x81, CHR 0x9F], [CHR 0xE3, CHR 0x80, CHR 0x80]]"

definition py_whitespace :: "string list" where
  "py_whitespace = ascii_space @ separator_space @ unicode_space"

text \<open>\<open>strip_tok toks s\<close>: \<open>s\<close> without the first token of \<open>toks\<close> that it starts with.\<close>

fun strip_tok :: "string list \<Rightarrow> string \<Rightarrow> string option" where
  "strip_tok [] s = None"
| "strip_tok (t # ts) s =
     (if t \<noteq> [] \<and> take (length t) s = t then Some (drop (length t) s) else strip_tok ts s)"

lemma strip_tok_shorter: "strip_tok toks s = Some r \<Longrightarrow> length r < length s"
proof (induction toks)
  case Nil
  then show ?case by simp
next
  case (Cons t ts)
  show ?case
  proof (cases "t \<noteq> [] \<and> take (length t) s = t")
    case True
    then have r: "r = drop (length t) s" and "0 < length t"
      using Cons.prems by auto
    moreover have "length t \<le> length s"
    proof -
      have "length (take (length t) s) = length t" using True by simp
      then show ?thesis by simp
    qed
    moreover have "length r = length s - length t"
      using r by simp
    ultimately show ?thesis by linarith
  next
    case False
    then show ?thesis using Cons by auto
  qed
qed

function lstrip_toks :: "string list \<Rightarrow> string \<Rightarrow> string" where
  "lstrip_toks toks s = (case strip_tok toks s of None \<Rightarrow> s | Some r \<Rightarrow> lstrip_toks toks r)"
  by pat_completeness auto
termination
  by (relation "measure (\<lambda>(toks, s). length s)") (auto dest: strip_tok_shorter)

definition strip_with :: "string list \<Rightarrow> string \<Rightarrow> string" where
  "strip_with toks s = rev (lstrip_toks (map rev toks) (rev (lstrip_toks toks s)))"

definition py_strip :: "string \<Rightarrow> string" where
  "py_strip s = strip_with py_whitespace s"

text \<open>\<open>s.replace(old, "")\<close>: the occurrences of \<open>old\<close> are removed from left to right.\<close>

function py_remove :: "string \<Rightarrow> string \<Rightarrow> string" where
  "py_remove old [] = []"
| "py_remove old (c # cs) =
     (if old \<noteq> [] \<and> take (length old) (c # cs) = old
      then py_remove old (drop (length old) (c # cs))
      else c # py_remove old cs)"
  by pat_completeness auto
termination
  by (relation "measure (\<lambda>(old, s). length s)") auto


definition before_colon :: "string \<Rightarrow> string" where
  "before_colon s = takeWhile (\<lambda>c. c \<noteq> CHR '':'') s"

subsection \<open>int() and float()\<close>

text \<open>
  The builtins on text in ASCII digits. A digit part is a digit followed by digits, each
  optionally preceded by one underscore. \<open>int()\<close> skips whitespace at both ends, but
  not U+001C to U+001F. Decimal digits of other scripts, which both builtins also read,
  are not modelled. \<open>float()\<close> is modelled with its exact decimal value: the spellings
  inf, infinity and nan are not read, and there is no rounding.
\<close>

definition is_digit :: "char \<Rightarrow> bool" where
  "is_digit c = (c \<in> set ''0123456789'')"

definition digit_val :: "char \<Rightarrow> nat" where
  "digit_val c = of_char c - 48"

definition nat_of_digits :: "string \<Rightarrow> nat" where
  "nat_of_digits ds = foldl (\<lambda>a c. 10 * a + digit_val c) 0 ds"

fun digitpart :: "string \<Rightarrow> string \<times> string" where
  "digitpart [] = ([], [])"
| "digitpart (c # cs) =
     (if \<not> is_digit c then ([], c # cs)
      else (case cs of
              u # d # ds \<Rightarrow>
                if u = CHR ''_'' \<and> is_digit d
                then (case digitpart (d # ds) of (xs, r) \<Rightarrow> (c # xs, r))
                else (case digitpart cs of (xs, r) \<Rightarrow> (c # xs, r))
            | _ \<Rightarrow> (case digitpart cs of (xs, r) \<Rightarrow> (c # xs, r))))"

definition split_sign :: "string \<Rightarrow> bool \<times> string" where
  "split_sign s =
     (case s of
        c # cs \<Rightarrow> if c = CHR ''-'' then (True, cs) else if c = CHR ''+'' then (False, cs)
                  else (False, s)
      | [] \<Rightarrow> (False, []))"

definition py_int :: "string \<Rightarrow> int option" where
  "py_int s =
     (case split_sign (strip_with (ascii_space @ unicode_space) s) of (neg, u) \<Rightarrow>
        (case digitpart u of (ds, r) \<Rightarrow>
           if ds = [] \<or> r \<noteq> [] then None
           else Some (if neg then - int (nat_of_digits ds) else int (nat_of_digits ds))))"



text \<open>\<open>str(n)\<close> for an integer.\<close>

fun nat_to_dec :: "nat \<Rightarrow> string" where
  "nat_to_dec n =
     (if n < 10 then [char_of (48 + n)] else nat_to_dec (n div 10) @ [char_of (48 + n mod 10)])"

definition py_str_int :: "int \<Rightarrow> string" where
  "py_str_int i = (if i < 0 then CHR ''-'' # nat_to_dec (nat (- i)) else nat_to_dec (nat i))"


section \<open>Directory store\<close>

text \<open>
  \<open>get_manager_departments\<close>: SELECT DISTINCT of the departments where the user is an
  active manager. \<open>get_department_employees\<close>: the active employees of a department,
  ORDER BY full_name (byte order). \<open>get_departments\<close>: all departments, ORDER BY id.
  Each logs and returns the empty list on an exception.
\<close>

definition get_manager_departments :: "store \<Rightarrow> int \<Rightarrow> int list \<times> log_entry list" where
  "get_manager_departments st user_id =
     (case get_db st of
        Inl e \<Rightarrow> ([], [LogError ''get_manager_departments'' e])
      | Inr d \<Rightarrow>
          (remdups (map e_department_id
             (filter (\<lambda>r. e_telegram_user_id r = Some user_id \<and> e_role r = ''manager''
                           \<and> e_is_active r = 1) (employees d))), []))"

definition get_department_employees :: "store \<Rightarrow> int \<Rightarrow> employee list \<times> log_entry list" where
  "get_department_employees st department_id =
     (case get_db st of
        Inl e \<Rightarrow> ([], [LogError ''get_department_employees'' e])
      | Inr d \<Rightarrow>
          (sort_key e_full_name
             (filter (\<lambda>r. e_department_id r = department_id \<and> e_is_active r = 1) (employees d)),
           []))"

definition get_departments :: "store \<Rightarrow> department list \<times> log_entry list" where
  "get_departments st =
     (case get_db st of
        Inl e \<Rightarrow> ([], [LogError ''get_departments'' e])
      | Inr d \<Rightarrow> (sort_key d_id (departments d), []))"


definition add_department :: "store \<Rightarrow> string \<Rightarrow> string \<Rightarrow> (error + store \<times> int) \<times> log_entry list" where
  "add_department st name emoji =
     (case get_db st of
        Inl e \<Rightarrow> (Inl e, [LogError ''add_department'' e])
      | Inr d \<Rightarrow>
          if name \<in> set (map d_name (departments d))
          then (Inl IntegrityError, [LogError ''add_department'' IntegrityError])
          else
            (let dept_id = new_rowid (map d_id (departments d)) in
             (Inr (st\<lparr>tables := d\<lparr>departments := departments d @
                     [\<lparr>d_id = dept_id, d_name = name, d_emoji = Some emoji\<rparr>]\<rparr>\<rparr>, dept_id),
              [LogInfo ''add_department''])))"

text \<open>
  \<open>get_employee_by_name\<close>: the two badge glyphs are removed from the name, which is then
  stripped; \<open>if department_id\<close> is false for \<open>None\<close> and for 0. \<open>fetchone\<close> gives the
  first matching row.
\<close>

definition BADGE_EMPLOYEE :: string where
  "BADGE_EMPLOYEE = [CHR 0xF0, CHR 0x9F, CHR 0x91, CHR 0xA4]"

definition BADGE_MANAGER :: string where
  "BADGE_MANAGER = [CHR 0xF0, CHR 0x9F, CHR 0x91, CHR 0x94]"

definition get_employee_by_name ::
  "store \<Rightarrow> string \<Rightarrow> int option \<Rightarrow> employee option \<times> log_entry list" where
  "get_employee_by_name st full_name department_id =
     (case get_db st of
        Inl e \<Rightarrow> (None, [LogError ''get_employee_by_name'' e])
      | Inr d \<Rightarrow>
          (let clean_name = py_strip (py_remove BADGE_MANAGER (py_remove BADGE_EMPLOYEE full_name)) in
           (if department_id \<noteq> None \<and> department_id \<noteq> Some 0
            then find (\<lambda>r. e_full_name r = clean_name \<and> Some (e_department_id r) = department_id
                            \<and> e_is_active r = 1) (employees d)
            else find (\<lambda>r. e_full_name r = clean_name \<and> e_is_active r = 1) (employees d),
            [])))"

text \<open>
  \<open>get_employee_salary\<close> (0.0 when the row or its salary is missing or zero, and on an
  exception) and \<open>set_employee_salary\<close> (one UPDATE by id; logs and re-raises).
\<close>

definition get_employee_salary :: "store \<Rightarrow> int \<Rightarrow> money \<times> log_entry list" where
  "get_employee_salary st employee_id =
     (case get_db st of
        Inl e \<Rightarrow> (0, [LogError ''get_employee_salary'' e])
      | Inr d \<Rightarrow>
          (case find (\<lambda>r. e_id r = employee_id) (employees d) of
             None \<Rightarrow> (0, [])
           | Some row \<Rightarrow> (case e_salary row of None \<Rightarrow> 0 | Some x \<Rightarrow> x, [])))"


text \<open>
  The statement the handlers run after \<open>add_accrual\<close>:
  \<open>UPDATE accruals SET period = ? WHERE id = (SELECT MAX(id) FROM accruals WHERE employee_id = ?)\<close>.
  \<open>MAX\<close> over no rows is NULL, which no id equals.
\<close>

definition sql_max :: "int list \<Rightarrow> int option" where
  "sql_max xs = (if xs = [] then None else Some (Max (set xs)))"

definition update_period :: "store \<Rightarrow> string \<Rightarrow> int \<Rightarrow> error + store" where
  "update_period st period emp_id =
     (case get_db st of
        Inl e \<Rightarrow> Inl e
      | Inr d \<Rightarrow>
          (let m = sql_max (map a_id (filter (\<lambda>a. a_employee_id a = emp_id) (accruals d))) in
           Inr (st\<lparr>tables := d\<lparr>accruals :=
                  map (\<lambda>a. if Some (a_id a) = m then a\<lparr>a_period := Some period\<rparr> else a)
                      (accruals d)\<rparr>\<rparr>)))"

section \<open>Dialogue controller\<close>

text \<open>
  An inbound message carries the sender's identifier and a text. The FSM context of a
  conversation is the current step and the \<open>data\<close> dict; the handlers store only the
  keys below, each with one type, and \<open>data.get(k)\<close> of an absent key is \<open>None\<close>.
\<close>

record message =
  from_user_id :: int
  m_text :: string

datatype fsm_state =
    AddEmployee_waiting_for_full_name
  | AddEmployee_waiting_for_position
  | AddEmployee_waiting_for_department
  | Accrual_waiting_for_employee
  | Accrual_waiting_for_amount
  | Accrual_waiting_for_comment
  | AddDepartment_waiting_for_name
  | SetSalary_waiting_for_employee_id
  | SetSalary_waiting_for_amount
  | AddBonus_waiting_for_employee_id
  | AddBonus_waiting_for_amount
  | AddBonus_waiting_for_comment
  | AddDeduction_waiting_for_employee_id
  | AddDeduction_waiting_for_amount
  | AddDeduction_waiting_for_comment

record fsm_data =
  full_name :: "string option"
  position :: "string option"
  employee_id :: "int option"
  amount :: "money option"
  current_department_id :: "int option"
  current_department_name :: "string option"
  current_employee_id :: "int option"
  bonus_amount :: "money option"
  deduction_amount :: "money option"

record fsm =
  cur_state :: "fsm_state option"
  data :: fsm_data

definition no_data :: fsm_data where
  "no_data = \<lparr>full_name = None, position = None, employee_id = None, amount = None,
              current_department_id = None, current_department_name = None,
              current_employee_id = None, bonus_amount = None, deduction_amount = None\<rparr>"

text \<open>\<open>state.clear()\<close> drops the step and the whole dict; \<open>state.set_state\<close> keeps the dict.\<close>

definition clear :: "fsm \<Rightarrow> fsm" where
  "clear f = \<lparr>cur_state = None, data = no_data\<rparr>"

definition set_state :: "fsm_state option \<Rightarrow> fsm \<Rightarrow> fsm" where
  "set_state s f = f\<lparr>cur_state := s\<rparr>"

text \<open>
  What a handler sends: the message, named after its wording with the values put into it,
  and the reply keyboard. The layout of a keyboard and the wording of the fixed labels
  are not modelled; the card of an employee is reduced to the employee row, the salary
  and the balance (the per-kind totals and the recent operations are left out).
\<close>

datatype keyboard =
    NoKb
  | KbRemove
  | SuperadminMainKb "department list"
  | DepartmentsKb "department list"
  | ManagerMainKb
  | EmployeeMainKb
  | ButtonsKb "string list"
  | CardKb string

datatype reply_text =
    AccessDenied
  | EmptyDeptName
  | DeptAdded string
  | DeptAddError error
  | EmptyFullName
  | AskPosition
  | EmptyPosition
  | OwnDeptUnknown
  | EmployeeAddedOwn "string option" string
  | EmployeeAddError error
  | NoDepartmentsYet
  | AskDepartment
  | DeptNotFound
  | EmployeeAdded "string option" "string option" string
  | OwnDeptNotFound
  | NoEmployeesYet
  | ChooseEmployee
  | BadEmployeeFormat
  | AskAccrualAmount
  | BadAccrualAmount
  | AskAccrualComment
  | Accrued "money option" "int option" string
  | AccrualError error
  | EmployeeNotSelected
  | NothingToPay
  | SalaryPaid money
  | PayoutError error
  | Card employee money money
  | BadAmount
  | SalaryChanged money
  | GenericError error
  | AskBonusComment
  | AskDeductionComment
  | DataError
  | BonusAdded money

datatype reply = Reply reply_text keyboard

record env =
  cfg :: settings
  now_iso :: string
  now_period :: string

record outcome =
  o_store :: store
  o_fsm :: fsm
  o_replies :: "reply list"
  o_log :: "log_entry list"

text \<open>
  \<open>require_role\<close>: the decorator resolves the sender's role first; a role outside the
  allowed ones gets the refusal and the handler is not called.
\<close>

definition require_role ::
  "string list \<Rightarrow> (env \<Rightarrow> store \<Rightarrow> message \<Rightarrow> fsm \<Rightarrow> outcome)
     \<Rightarrow> env \<Rightarrow> store \<Rightarrow> message \<Rightarrow> fsm \<Rightarrow> outcome" where
  "require_role allowed_roles handler ev st msg f =
     (case get_user_role (cfg ev) st (from_user_id msg) of (role, lg) \<Rightarrow>
        if role \<notin> set allowed_roles
        then \<lparr>o_store = st, o_fsm = f, o_replies = [Reply AccessDenied NoKb], o_log = lg\<rparr>
        else (let r = handler ev st msg f in r\<lparr>o_log := lg @ o_log r\<rparr>))"

definition superadmin_main_kb :: "store \<Rightarrow> keyboard \<times> log_entry list" where
  "superadmin_main_kb st = (case get_departments st of (ds, lg) \<Rightarrow> (SuperadminMainKb ds, lg))"

subsection \<open>AddDepartment\<close>

definition superadmin_add_department_finish_body :: "env \<Rightarrow> store \<Rightarrow> message \<Rightarrow> fsm \<Rightarrow> outcome" where
  "superadmin_add_department_finish_body ev st msg f =
     (let name = py_strip (m_text msg) in
      if name = []
      then \<lparr>o_store = st, o_fsm = f, o_replies = [Reply EmptyDeptName NoKb], o_log = []\<rparr>
      else
        (case add_department st name [] of
           (Inr (st', dept_id), lg) \<Rightarrow>
             (case superadmin_main_kb st' of (kb, lg') \<Rightarrow>
                \<lparr>o_store = st', o_fsm = clear f, o_replies = [Reply (DeptAdded name) kb],
                 o_log = lg @ lg'\<rparr>)
         | (Inl e, lg) \<Rightarrow>
             (case superadmin_main_kb st of (kb, lg') \<Rightarrow>
                \<lparr>o_store = st, o_fsm = clear f, o_replies = [Reply (DeptAddError e) kb],
                 o_log = lg @ lg'\<rparr>)))"

definition superadmin_add_department_finish :: "env \<Rightarrow> store \<Rightarrow> message \<Rightarrow> fsm \<Rightarrow> outcome" where
  "superadmin_add_department_finish =
     require_role [ROLE_SUPERADMIN] superadmin_add_department_finish_body"

subsection \<open>AddEmployee\<close>









subsection \<open>RecordAccrual (manager)\<close>

text \<open>
  \<open>accrual_start\<close> offers one button "<id>: <full_name>" for each active employee of the
  manager's departments and enters the employee step.
\<close>

definition accrual_start_body :: "env \<Rightarrow> store \<Rightarrow> message \<Rightarrow> fsm \<Rightarrow> outcome" where
  "accrual_start_body ev st msg f =
     (case get_manager_departments st (from_user_id msg) of (dept_ids, lg1) \<Rightarrow>
        if dept_ids = []
        then \<lparr>o_store = st, o_fsm = f, o_replies = [Reply OwnDeptNotFound ManagerMainKb],
              o_log = lg1\<rparr>
        else
          (let found = map (get_department_employees st) dept_ids;
               emps = concat (map fst found);
               lg2 = concat (map snd found) in
           if emps = []
           then \<lparr>o_store = st, o_fsm = f, o_replies = [Reply NoEmployeesYet ManagerMainKb],
                 o_log = lg1 @ lg2\<rparr>
           else \<lparr>o_store = st, o_fsm = set_state (Some Accrual_waiting_for_employee) f,
                 o_replies = [Reply ChooseEmployee
                    (ButtonsKb (map (\<lambda>e. py_str_int (e_id e) @ '': '' @ e_full_name e) emps))],
                 o_log = lg1 @ lg2\<rparr>))"

definition accrual_start :: "env \<Rightarrow> store \<Rightarrow> message \<Rightarrow> fsm \<Rightarrow> outcome" where
  "accrual_start = require_role [ROLE_MANAGER] accrual_start_body"

text \<open>
  \<open>accrual_choose_employee\<close>: the text before the first colon is read with \<open>int()\<close>; a
  ValueError re-prompts, any integer is stored under \<open>employee_id\<close>.
\<close>

definition accrual_choose_employee_body :: "env \<Rightarrow> store \<Rightarrow> message \<Rightarrow> fsm \<Rightarrow> outcome" where
  "accrual_choose_employee_body ev st msg f =
     (let t = py_strip (m_text msg) in
      case py_int (before_colon t) of
        None \<Rightarrow> \<lparr>o_store = st, o_fsm = f, o_replies = [Reply BadEmployeeFormat NoKb], o_log = []\<rparr>
      | Some emp \<Rightarrow>
          \<lparr>o_store = st,
           o_fsm = set_state (Some Accrual_waiting_for_amount)
                     (f\<lparr>data := (data f)\<lparr>employee_id := Some emp\<rparr>\<rparr>),
           o_replies = [Reply AskAccrualAmount KbRemove], o_log = []\<rparr>)"

definition accrual_choose_employee :: "env \<Rightarrow> store \<Rightarrow> message \<Rightarrow> fsm \<Rightarrow> outcome" where
  "accrual_choose_employee = require_role [ROLE_MANAGER] accrual_choose_employee_body"



text \<open>
  \<open>accrual_finish\<close> passes the kind \<open>"accrual"\<close> to \<open>add_accrual\<close>; an empty comment is
  replaced by a default label. It runs no period update.
\<close>

definition ACCRUAL_LABEL :: string where
  "ACCRUAL_LABEL =
     [CHR 0xD0, CHR 0x9D, CHR 0xD0, CHR 0xB0, CHR 0xD1, CHR 0x87, CHR 0xD0, CHR 0xB8,
      CHR 0xD1, CHR 0x81, CHR 0xD0, CHR 0xBB, CHR 0xD0, CHR 0xB5, CHR 0xD0, CHR 0xBD,
      CHR 0xD0, CHR 0xB8, CHR 0xD0, CHR 0xB5]"

definition accrual_finish_body :: "env \<Rightarrow> store \<Rightarrow> message \<Rightarrow> fsm \<Rightarrow> outcome" where
  "accrual_finish_body ev st msg f =
     (let emp = employee_id (data f);
          amt = amount (data f);
          comment = py_strip (m_text msg) in
      case add_accrual st (now_iso ev) emp amt ''accrual''
             (if comment = [] then ACCRUAL_LABEL else comment) (from_user_id msg) of
        (Inr st', lg) \<Rightarrow>
          \<lparr>o_store = st', o_fsm = clear f,
           o_replies = [Reply (Accrued amt emp comment) ManagerMainKb], o_log = lg\<rparr>
      | (Inl e, lg) \<Rightarrow>
          \<lparr>o_store = st, o_fsm = clear f,
           o_replies = [Reply (AccrualError e) ManagerMainKb], o_log = lg\<rparr>)"

definition accrual_finish :: "env \<Rightarrow> store \<Rightarrow> message \<Rightarrow> fsm \<Rightarrow> outcome" where
  "accrual_finish = require_role [ROLE_MANAGER] accrual_finish_body"

subsection \<open>Employee card actions\<close>

text \<open>
  \<open>show_updated_card\<close> reads the employee row and sends nothing when it is missing; an
  exception is logged and nothing is sent.
\<close>

definition show_updated_card :: "env \<Rightarrow> store \<Rightarrow> message \<Rightarrow> int \<Rightarrow> reply list \<times> log_entry list" where
  "show_updated_card ev st msg emp_id =
     (case get_db st of
        Inl e \<Rightarrow> ([], [LogError ''show_updated_card'' e])
      | Inr d \<Rightarrow>
          (case find (\<lambda>r. e_id r = emp_id) (employees d) of
             None \<Rightarrow> ([], [])
           | Some row \<Rightarrow>
               (case get_employee_salary st emp_id of (sal, lg1) \<Rightarrow>
                (case get_employee_balance st emp_id of (bal, lg2) \<Rightarrow>
                 (case get_user_role (cfg ev) st (from_user_id msg) of (role, lg3) \<Rightarrow>
                    ([Reply (Card row sal bal) (CardKb role)], lg1 @ lg2 @ lg3))))))"







definition BONUS_LABEL :: string where
  "BONUS_LABEL =
     [CHR 0xD0, CHR 0x9F, CHR 0xD1, CHR 0x80, CHR 0xD0, CHR 0xB5, CHR 0xD0, CHR 0xBC,
      CHR 0xD0, CHR 0xB8, CHR 0xD1, CHR 0x8F]"

definition py_falsy_money :: "money option \<Rightarrow> bool" where
  "py_falsy_money a = (a = None \<or> a = Some 0)"

definition add_bonus_finish :: "env \<Rightarrow> store \<Rightarrow> message \<Rightarrow> fsm \<Rightarrow> outcome" where
  "add_bonus_finish ev st msg f =
     (let emp = current_employee_id (data f);
          amt = bonus_amount (data f);
          comment = py_strip (m_text msg) in
      case (emp, amt) of
        (Some emp_id, Some a) \<Rightarrow>
          if emp_id = 0 \<or> py_falsy_money amt
          then \<lparr>o_store = st, o_fsm = clear f, o_replies = [Reply DataError NoKb], o_log = []\<rparr>
          else
            (case add_accrual st (now_iso ev) emp amt ''bonus''
                    (if comment = [] then BONUS_LABEL else comment) (from_user_id msg) of
               (Inl e, lg) \<Rightarrow>
                 \<lparr>o_store = st, o_fsm = clear f, o_replies = [Reply (GenericError e) NoKb],
                  o_log = lg\<rparr>
             | (Inr st1, lg) \<Rightarrow>
                 (case update_period st1 (now_period ev) emp_id of
                    Inl e \<Rightarrow>
                      \<lparr>o_store = st1, o_fsm = clear f, o_replies = [Reply (GenericError e) NoKb],
                       o_log = lg\<rparr>
                  | Inr st2 \<Rightarrow>
                      (case show_updated_card ev st2 msg emp_id of (shown, lg') \<Rightarrow>
                         \<lparr>o_store = st2, o_fsm = set_state None f,
                          o_replies = Reply (BonusAdded a) NoKb # shown, o_log = lg @ lg'\<rparr>)))
      | _ \<Rightarrow> \<lparr>o_store = st, o_fsm = clear f, o_replies = [Reply DataError NoKb], o_log = []\<rparr>)"

section \<open>Notions used in the statements\<close>

text \<open>
  The UNIQUE constraint on \<open>employees.telegram_user_id\<close> (NULLs do not collide): a state
  the schema admits has no two rows with the same non-null identifier.
\<close>

definition telegram_unique :: "db \<Rightarrow> bool" where
  "telegram_unique d =
     distinct (map e_telegram_user_id (filter (\<lambda>r. e_telegram_user_id r \<noteq> None) (employees d)))"

text \<open>
  The scope of a manager: the employees that \<open>accrual_start\<close> offers, that is the active
  employees of the departments the manager administers.
\<close>

definition in_scope :: "store \<Rightarrow> int \<Rightarrow> int \<Rightarrow> bool" where
  "in_scope st user_id emp_id =
     (emp_id \<in> set (map e_id (concat (map (\<lambda>dep. fst (get_department_employees st dep))
                                        (fst (get_manager_departments st user_id))))))"

text \<open>A re-prompt: the store and the context are as before and the one reply asks again.\<close>

definition reprompts :: "store \<Rightarrow> fsm \<Rightarrow> outcome \<Rightarrow> reply_text \<Rightarrow> bool" where
  "reprompts st f r t = (o_store r = st \<and> o_fsm r = f \<and> o_replies r = [Reply t NoKb])"

definition role_of :: "env \<Rightarrow> store \<Rightarrow> message \<Rightarrow> string" where
  "role_of ev st msg = fst (get_user_role (cfg ev) st (from_user_id msg))"

definition empty_store :: store where
  "empty_store = \<lparr>fault = None, tables = \<lparr>departments = [], employees = [], accruals = []\<rparr>\<rparr>"

subsection \<open>A small organisation\<close>

text \<open>
  Two departments; Ann manages Sales, where Bob works; Cy works in Store. Bob has a bonus
  of 10000 and a deduction of 2000. User 1 is the super-administrator.
\<close>

definition ex_db :: db where
  "ex_db =
     \<lparr>departments =
        [\<lparr>d_id = 1, d_name = ''Sales'', d_emoji = None\<rparr>,
         \<lparr>d_id = 2, d_name = ''Store'', d_emoji = None\<rparr>],
      employees =
        [\<lparr>e_id = 1, e_full_name = ''Ann'', e_telegram_user_id = Some 100, e_department_id = 1,
          e_role = ''manager'', e_position = None, e_salary = Some 0, e_is_active = 1\<rparr>,
         \<lparr>e_id = 2, e_full_name = ''Bob'', e_telegram_user_id = Some 200, e_department_id = 1,
          e_role = ''employee'', e_position = None, e_salary = Some 0, e_is_active = 1\<rparr>,
         \<lparr>e_id = 3, e_full_name = ''Cy'', e_telegram_user_id = None, e_department_id = 2,
          e_role = ''employee'', e_position = None, e_salary = Some 0, e_is_active = 1\<rparr>],
      accruals =
        [\<lparr>a_id = 1, a_employee_id = 2, a_amount = 10000, a_kind = ''bonus'',
          a_comment = Some ''plan'', a_period = Some ''2025-10'',
          a_created_at = ''2025-10-30T09:00:00+00:00'', a_created_by = Some 100\<rparr>,
         \<lparr>a_id = 2, a_employee_id = 2, a_amount = 2000, a_kind = ''deduction'',
          a_comment = Some ''late'', a_period = Some ''2025-10'',
          a_created_at = ''2025-10-31T09:00:00+00:00'', a_created_by = Some 100\<rparr>]\<rparr>"

definition ex_store :: store where
  "ex_store = \<lparr>fault = None, tables = ex_db\<rparr>"


definition ex_store_down :: store where
  "ex_store_down = \<lparr>fault = Some OperationalError, tables = ex_db\<rparr>"

definition ex_env :: env where
  "ex_env = \<lparr>cfg = \<lparr>superadmins = [1]\<rparr>, now_iso = ''2025-11-03T10:00:00+00:00'',
             now_period = ''2025-11''\<rparr>"

definition ex_fsm :: "fsm_state \<Rightarrow> fsm" where
  "ex_fsm s = \<lparr>cur_state = Some s, data = no_data\<rparr>"

section \<open>The ledger: balance and append\<close>


lemma get_db_down: "fault st = Some e \<Longrightarrow> get_db st = Inl e"
  by (simp add: get_db_def)









lemma add_accrual_Inr:
  assumes "fst (add_accrual st now eo ao k c by) = Inr st'"
  shows "\<exists>e a. eo = Some e \<and> ao = Some a \<and> fault st = None \<and> k \<in> set accrual_kinds
           \<and> st' = st\<lparr>tables := (tables st)\<lparr>accruals := accruals (tables st) @
                 [\<lparr>a_id = new_rowid (map a_id (accruals (tables st))), a_employee_id = e,
                   a_amount = a, a_kind = k, a_comment = Some c, a_period = None,
                   a_created_at = now, a_created_by = Some by\<rparr>]\<rparr>\<rparr>"
  using assms
  by (auto simp: add_accrual_def get_db_def split: option.splits if_splits)

lemma add_accrual_ok:
  assumes "fault st = None" and "k \<in> set accrual_kinds"
  shows "add_accrual st now (Some e) (Some a) k c by =
           (Inr (st\<lparr>tables := (tables st)\<lparr>accruals := accruals (tables st) @
                 [\<lparr>a_id = new_rowid (map a_id (accruals (tables st))), a_employee_id = e,
                   a_amount = a, a_kind = k, a_comment = Some c, a_period = None,
                   a_created_at = now, a_created_by = Some by\<rparr>]\<rparr>\<rparr>),
            [LogInfo ''add_accrual''])"
  using assms by (simp add: add_accrual_def get_db_def)

lemma new_rowid_greater: "i \<in> set ids \<Longrightarrow> i < new_rowid ids"
proof -
  assume "i \<in> set ids"
  then have "ids \<noteq> []" and "i \<le> Max (set ids)" by auto
  then show ?thesis by (simp add: new_rowid_def)
qed

text \<open>
  Claim C5. \<open>add_accrual\<close> succeeds on a working store for a kind of the closed set, and
  whenever it succeeds the table afterwards is the table before followed by exactly one
  new row with a fresh id: the history of the employee is the prior history plus that
  row, the history of every other employee and the other tables are unchanged.
\<close>

theorem add_accrual_appends_one:
  "(fault st = None \<and> k \<in> set accrual_kinds
      \<longrightarrow> (\<exists>st1. fst (add_accrual st now (Some e) (Some a) k c by) = Inr st1))
   \<and> (fst (add_accrual st now eo ao k c by) = Inr st'
      \<longrightarrow> (\<exists>r. accruals (tables st') = accruals (tables st) @ [r]
              \<and> a_id r \<notin> set (map a_id (accruals (tables st)))
              \<and> Some (a_employee_id r) = eo \<and> Some (a_amount r) = ao \<and> a_kind r = k
              \<and> a_created_at r = now
              \<and> filter (\<lambda>x. a_employee_id x = a_employee_id r) (accruals (tables st'))
                  = filter (\<lambda>x. a_employee_id x = a_employee_id r) (accruals (tables st)) @ [r]
              \<and> (\<forall>e'. e' \<noteq> a_employee_id r \<longrightarrow>
                    filter (\<lambda>x. a_employee_id x = e') (accruals (tables st'))
                    = filter (\<lambda>x. a_employee_id x = e') (accruals (tables st)))
              \<and> employees (tables st') = employees (tables st)
              \<and> departments (tables st') = departments (tables st)))"
proof (intro conjI impI)
  assume "fault st = None \<and> k \<in> set accrual_kinds"
  then show "\<exists>st1. fst (add_accrual st now (Some e) (Some a) k c by) = Inr st1"
    by (simp add: add_accrual_ok)
next
  assume "fst (add_accrual st now eo ao k c by) = Inr st'"
  from add_accrual_Inr [OF this] obtain e1 a1 where
    eo: "eo = Some e1" and ao: "ao = Some a1" and
    st': "st' = st\<lparr>tables := (tables st)\<lparr>accruals := accruals (tables st) @
                 [\<lparr>a_id = new_rowid (map a_id (accruals (tables st))), a_employee_id = e1,
                   a_amount = a1, a_kind = k, a_comment = Some c, a_period = None,
                   a_created_at = now, a_created_by = Some by\<rparr>]\<rparr>\<rparr>"
    by blast
  let ?r = "\<lparr>a_id = new_rowid (map a_id (accruals (tables st))), a_employee_id = e1,
                   a_amount = a1, a_kind = k, a_comment = Some c, a_period = None,
                   a_created_at = now, a_created_by = Some by\<rparr>"
  have fresh: "a_id ?r \<notin> set (map a_id (accruals (tables st)))"
    using new_rowid_greater [of "new_rowid (map a_id (accruals (tables st)))" "map a_id (accruals (tables st))"]
    by auto
  show "\<exists>r. accruals (tables st') = accruals (tables st) @ [r]
              \<and> a_id r \<notin> set (map a_id (accruals (tables st)))
              \<and> Some (a_employee_id r) = eo \<and> Some (a_amount r) = ao \<and> a_kind r = k
              \<and> a_created_at r = now
              \<and> filter (\<lambda>x. a_employee_id x = a_employee_id r) (accruals (tables st'))
                  = filter (\<lambda>x. a_employee_id x = a_employee_id r) (accruals (tables st)) @ [r]
              \<and> (\<forall>e'. e' \<noteq> a_employee_id r \<longrightarrow>
                    filter (\<lambda>x. a_employee_id x = e') (accruals (tables st'))
                    = filter (\<lambda>x. a_employee_id x = e') (accruals (tables st)))
              \<and> employees (tables st') = employees (tables st)
              \<and> departments (tables st') = departments (tables st)"
    apply (rule exI [where x = ?r])
    using fresh by (simp add: st' eo ao)
qed

theorem add_accrual_appends_one_witness:
  "fault ex_store = None \<and> ''bonus'' \<in> set accrual_kinds
   \<and> (\<exists>st1. fst (add_accrual ex_store ''t'' (Some 2) (Some 500) ''bonus'' ''c'' 100) = Inr st1
         \<and> length (accruals (tables st1)) = 3
         \<and> take 2 (accruals (tables st1)) = accruals ex_db
         \<and> a_amount (last (accruals (tables st1))) = 500
         \<and> employees (tables st1) = employees ex_db)"
proof -
  have h: "fault ex_store = None \<and> ''bonus'' \<in> set accrual_kinds"
    by (simp add: ex_store_def accrual_kinds_def)
  have len: "length (accruals (tables ex_store)) = 2"
    and tab: "tables ex_store = ex_db"
    by (simp_all add: ex_store_def ex_db_def)
  obtain st1 where st1: "fst (add_accrual ex_store ''t'' (Some 2) (Some 500) ''bonus'' ''c'' 100) = Inr st1"
    using add_accrual_appends_one [of ex_store "''bonus''" "''t''" 2 500 "''c''" 100] h by blast
  have "length (accruals (tables st1)) = 3 \<and> take 2 (accruals (tables st1)) = accruals ex_db
          \<and> a_amount (last (accruals (tables st1))) = 500
          \<and> employees (tables st1) = employees ex_db"
    using add_accrual_appends_one [of ex_store "''bonus''" "''t''" 2 500 "''c''" 100
        "Some 2" "Some 500" st1] st1 len tab
    by auto
  with h st1 show ?thesis by blast
qed

section \<open>Role resolution\<close>

lemma find_unique_row:
  assumes uniq: "telegram_unique d"
    and r: "r \<in> set (employees d)" "e_telegram_user_id r = Some uid" "e_is_active r = 1"
  shows "\<exists>r'. find (\<lambda>x. e_telegram_user_id x = Some uid \<and> e_is_active x = 1) (employees d) = Some r'
              \<and> e_role r' = e_role r"
proof -
  let ?P = "\<lambda>x. e_telegram_user_id x = Some uid \<and> e_is_active x = 1"
  have "\<exists>x \<in> set (employees d). ?P x" using r by blast
  then obtain r' where f: "find ?P (employees d) = Some r'"
    by (cases "find ?P (employees d)") (auto simp: find_None_iff)
  then have r': "r' \<in> set (employees d)" "e_telegram_user_id r' = Some uid"
    by (auto simp: find_Some_iff)
  have inj: "inj_on e_telegram_user_id (set (filter (\<lambda>x. e_telegram_user_id x \<noteq> None) (employees d)))"
    using uniq unfolding telegram_unique_def by (rule distinct_map [THEN iffD1, THEN conjunct2])
  have "r' = r"
    using inj r r' by (auto dest!: inj_onD [where x = r' and y = r])
  with f show ?thesis by blast
qed

text \<open>
  Claim C6. An identifier on the configured allow-list resolves to the super-administrator
  role whatever the store holds or does. Otherwise, on a working store that respects the
  UNIQUE constraint on the binding, an active bound employee with role tag manager
  resolves to manager and one with role tag employee to employee; without an active
  binding the role is unknown; and when the store raises, the role is unknown, the error
  is logged and nothing is raised to the caller.
\<close>

theorem role_resolution:
  "(uid \<in> set (superadmins c) \<longrightarrow> get_user_role c st uid = (ROLE_SUPERADMIN, []))
   \<and> (uid \<notin> set (superadmins c) \<and> fault st = None \<and> telegram_unique (tables st)
        \<and> r \<in> set (employees (tables st)) \<and> e_telegram_user_id r = Some uid \<and> e_is_active r = 1
        \<longrightarrow> (e_role r = ''manager'' \<longrightarrow> get_user_role c st uid = (ROLE_MANAGER, []))
          \<and> (e_role r = ''employee'' \<longrightarrow> get_user_role c st uid = (ROLE_EMPLOYEE, [])))
   \<and> (uid \<notin> set (superadmins c) \<and> fault st = None
        \<and> (\<forall>x \<in> set (employees (tables st)). \<not> (e_telegram_user_id x = Some uid \<and> e_is_active x = 1))
        \<longrightarrow> get_user_role c st uid = (ROLE_UNKNOWN, []))
   \<and> (uid \<notin> set (superadmins c) \<and> fault st = Some err
        \<longrightarrow> get_user_role c st uid = (ROLE_UNKNOWN, [LogError ''get_user_role'' err]))"
proof (intro conjI impI)
  assume "uid \<in> set (superadmins c)"
  then show "get_user_role c st uid = (ROLE_SUPERADMIN, [])"
    by (simp add: get_user_role_def)
next
  assume h: "uid \<notin> set (superadmins c) \<and> fault st = None \<and> telegram_unique (tables st)
        \<and> r \<in> set (employees (tables st)) \<and> e_telegram_user_id r = Some uid \<and> e_is_active r = 1"
  then obtain r' where
    f: "find (\<lambda>x. e_telegram_user_id x = Some uid \<and> e_is_active x = 1) (employees (tables st)) = Some r'"
    and ro: "e_role r' = e_role r"
    using find_unique_row [of "tables st" r uid] by blast
  { assume "e_role r = ''manager''"
    then show "get_user_role c st uid = (ROLE_MANAGER, [])"
      using h f ro by (simp add: get_user_role_def get_db_def) }
  { assume "e_role r = ''employee''"
    then show "get_user_role c st uid = (ROLE_EMPLOYEE, [])"
      using h f ro by (simp add: get_user_role_def get_db_def) }
next
  assume h: "uid \<notin> set (superadmins c) \<and> fault st = None
        \<and> (\<forall>x \<in> set (employees (tables st)). \<not> (e_telegram_user_id x = Some uid \<and> e_is_active x = 1))"
  then have "find (\<lambda>x. e_telegram_user_id x = Some uid \<and> e_is_active x = 1) (employees (tables st)) = None"
    by (simp add: find_None_iff)
  then show "get_user_role c st uid = (ROLE_UNKNOWN, [])"
    using h by (simp add: get_user_role_def get_db_def)
next
  assume "uid \<notin> set (superadmins c) \<and> fault st = Some err"
  then show "get_user_role c st uid = (ROLE_UNKNOWN, [LogError ''get_user_role'' err])"
    by (simp add: get_user_role_def get_db_def)
qed

theorem role_resolution_witness:
  "get_user_role \<lparr>superadmins = [100]\<rparr> ex_store 100 = (ROLE_SUPERADMIN, [])
   \<and> get_user_role (cfg ex_env) ex_store 100 = (ROLE_MANAGER, [])
   \<and> get_user_role (cfg ex_env) ex_store 200 = (ROLE_EMPLOYEE, [])
   \<and> get_user_role (cfg ex_env) ex_store 999 = (ROLE_UNKNOWN, [])
   \<and> get_user_role (cfg ex_env) ex_store_down 100
        = (ROLE_UNKNOWN, [LogError ''get_user_role'' OperationalError])"
proof -
  let ?ann = "\<lparr>e_id = 1, e_full_name = ''Ann'', e_telegram_user_id = Some 100, e_department_id = 1,
          e_role = ''manager'', e_position = None, e_salary = Some 0, e_is_active = 1\<rparr>"
  let ?bob = "\<lparr>e_id = 2, e_full_name = ''Bob'', e_telegram_user_id = Some 200, e_department_id = 1,
          e_role = ''employee'', e_position = None, e_salary = Some 0, e_is_active = 1\<rparr>"
  have u: "telegram_unique (tables ex_store)" and up: "fault ex_store = None"
    and down: "fault ex_store_down = Some OperationalError"
    and sa: "superadmins (cfg ex_env) = [1]"
    and emps: "employees (tables ex_store) = employees ex_db"
    by (simp_all add: telegram_unique_def ex_store_def ex_store_down_def ex_db_def ex_env_def)
  have a: "?ann \<in> set (employees ex_db)" and b: "?bob \<in> set (employees ex_db)"
    by (simp_all add: ex_db_def)
  have n: "\<forall>x \<in> set (employees ex_db). \<not> (e_telegram_user_id x = Some 999 \<and> e_is_active x = 1)"
    by (simp add: ex_db_def)
  have 1: "get_user_role \<lparr>superadmins = [100]\<rparr> ex_store 100 = (ROLE_SUPERADMIN, [])"
    using role_resolution [of 100 "\<lparr>superadmins = [100]\<rparr>" ex_store] by simp
  have 2: "get_user_role (cfg ex_env) ex_store 100 = (ROLE_MANAGER, [])"
    using role_resolution [of 100 "cfg ex_env" ex_store ?ann] u up sa emps a by simp
  have 3: "get_user_role (cfg ex_env) ex_store 200 = (ROLE_EMPLOYEE, [])"
    using role_resolution [of 200 "cfg ex_env" ex_store ?bob] u up sa emps b by simp
  have 4: "get_user_role (cfg ex_env) ex_store 999 = (ROLE_UNKNOWN, [])"
    using role_resolution [of 999 "cfg ex_env" ex_store] up sa emps n by simp
  have 5: "get_user_role (cfg ex_env) ex_store_down 100
        = (ROLE_UNKNOWN, [LogError ''get_user_role'' OperationalError])"
    using role_resolution [of 100 "cfg ex_env" ex_store_down _ OperationalError] down sa by simp
  show ?thesis using 1 2 3 4 5 by blast
qed

section \<open>Reads on a failing store\<close>

text \<open>
  Claim C10. When the store raises, the read operations log the error and return a value
  instead: the balance is 0, the department list and the employee list of a department
  are empty, and the lookup of an employee by name finds nothing; each value is the one
  the operation returns on a store without any rows.
\<close>

theorem reads_swallow_store_errors:
  "fault st = Some err \<longrightarrow>
     get_employee_balance st e = (0, [LogError ''get_employee_balance'' err])
     \<and> get_departments st = ([], [LogError ''get_departments'' err])
     \<and> get_department_employees st dep = ([], [LogError ''get_department_employees'' err])
     \<and> get_employee_by_name st name dep_opt = (None, [LogError ''get_employee_by_name'' err])
     \<and> fst (get_employee_balance st e) = fst (get_employee_balance empty_store e)
     \<and> fst (get_departments st) = fst (get_departments empty_store)
     \<and> fst (get_department_employees st dep) = fst (get_department_employees empty_store dep)
     \<and> fst (get_employee_by_name st name dep_opt) = fst (get_employee_by_name empty_store name dep_opt)"
  by (simp add: get_employee_balance_def get_departments_def get_department_employees_def
      get_employee_by_name_def get_db_def empty_store_def balance_row_def coalesce_def sql_sum_def
      Let_def)

theorem reads_swallow_store_errors_witness:
  "fault ex_store_down = Some OperationalError
   \<and> get_employee_balance ex_store_down 2 = (0, [LogError ''get_employee_balance'' OperationalError])
   \<and> get_departments ex_store_down = ([], [LogError ''get_departments'' OperationalError])
   \<and> get_department_employees ex_store_down 1
        = ([], [LogError ''get_department_employees'' OperationalError])
   \<and> get_employee_by_name ex_store_down ''Bob'' (Some 1)
        = (None, [LogError ''get_employee_by_name'' OperationalError])"
proof -
  have h: "fault ex_store_down = Some OperationalError"
    by (simp add: ex_store_down_def)
  show ?thesis
    using reads_swallow_store_errors [of ex_store_down OperationalError 2 1 "''Bob''" "Some 1"] h
    by simp
qed

section \<open>The dialogue flows\<close>

lemma superadmin_role:
  "from_user_id msg \<in> set (superadmins (cfg ev)) \<Longrightarrow>
     get_user_role (cfg ev) st (from_user_id msg) = (ROLE_SUPERADMIN, [])"
  by (simp add: get_user_role_def)

lemma require_role_allowed:
  "get_user_role (cfg ev) st (from_user_id msg) = (role, lg) \<Longrightarrow> role \<in> set allowed \<Longrightarrow>
     require_role allowed h ev st msg f = (h ev st msg f)\<lparr>o_log := lg @ o_log (h ev st msg f)\<rparr>"
  by (simp add: require_role_def Let_def)

lemma require_role_denied:
  "get_user_role (cfg ev) st (from_user_id msg) = (role, lg) \<Longrightarrow> role \<notin> set allowed \<Longrightarrow>
     require_role allowed h ev st msg f
       = \<lparr>o_store = st, o_fsm = f, o_replies = [Reply AccessDenied NoKb], o_log = lg\<rparr>"
  by (simp add: require_role_def)

lemma require_role_by_role_of:
  "role_of ev st msg \<in> set allowed \<Longrightarrow>
     o_store (require_role allowed h ev st msg f) = o_store (h ev st msg f)
     \<and> o_fsm (require_role allowed h ev st msg f) = o_fsm (h ev st msg f)
     \<and> o_replies (require_role allowed h ev st msg f) = o_replies (h ev st msg f)"
  by (cases "get_user_role (cfg ev) st (from_user_id msg)")
     (simp add: require_role_def role_of_def Let_def)

text \<open>
  Claim C7. When a super-administrator commits the AddDepartment flow with a name that,
  once stripped, is not empty and equals the name of an existing department, the store
  is unchanged (so the number of departments is the same), the one reply is the error
  message, and the conversation context is cleared: no step remains active.
\<close>

theorem duplicate_department_aborts:
  "role_of ev st msg = ROLE_SUPERADMIN \<and> fault st = None \<and> py_strip (m_text msg) \<noteq> []
   \<and> py_strip (m_text msg) \<in> set (map d_name (departments (tables st)))
   \<longrightarrow> o_store (superadmin_add_department_finish ev st msg f) = st
     \<and> length (departments (tables (o_store (superadmin_add_department_finish ev st msg f))))
         = length (departments (tables st))
     \<and> o_replies (superadmin_add_department_finish ev st msg f)
         = [Reply (DeptAddError IntegrityError) (SuperadminMainKb (sort_key d_id (departments (tables st))))]
     \<and> o_fsm (superadmin_add_department_finish ev st msg f) = \<lparr>cur_state = None, data = no_data\<rparr>"
proof
  assume h: "role_of ev st msg = ROLE_SUPERADMIN \<and> fault st = None \<and> py_strip (m_text msg) \<noteq> []
   \<and> py_strip (m_text msg) \<in> set (map d_name (departments (tables st)))"
  then have ro: "role_of ev st msg \<in> set [ROLE_SUPERADMIN]" by simp
  have body: "superadmin_add_department_finish_body ev st msg f
      = \<lparr>o_store = st, o_fsm = clear f,
         o_replies = [Reply (DeptAddError IntegrityError) (SuperadminMainKb (sort_key d_id (departments (tables st))))],
         o_log = [LogError ''add_department'' IntegrityError]\<rparr>"
    using h
    by (simp add: superadmin_add_department_finish_body_def add_department_def get_db_def
        superadmin_main_kb_def get_departments_def Let_def)
  show "o_store (superadmin_add_department_finish ev st msg f) = st
     \<and> length (departments (tables (o_store (superadmin_add_department_finish ev st msg f))))
         = length (departments (tables st))
     \<and> o_replies (superadmin_add_department_finish ev st msg f)
         = [Reply (DeptAddError IntegrityError) (SuperadminMainKb (sort_key d_id (departments (tables st))))]
     \<and> o_fsm (superadmin_add_department_finish ev st msg f) = \<lparr>cur_state = None, data = no_data\<rparr>"
    unfolding superadmin_add_department_finish_def
    using require_role_by_role_of [OF ro, of superadmin_add_department_finish_body f] body
    by (simp add: clear_def)
qed

theorem duplicate_department_aborts_witness:
  "role_of ex_env ex_store \<lparr>from_user_id = 1, m_text = '' Sales ''\<rparr> = ROLE_SUPERADMIN
   \<and> py_strip '' Sales '' = ''Sales''
   \<and> o_store (superadmin_add_department_finish ex_env ex_store
        \<lparr>from_user_id = 1, m_text = '' Sales ''\<rparr> (ex_fsm AddDepartment_waiting_for_name)) = ex_store
   \<and> o_fsm (superadmin_add_department_finish ex_env ex_store
        \<lparr>from_user_id = 1, m_text = '' Sales ''\<rparr> (ex_fsm AddDepartment_waiting_for_name))
       = \<lparr>cur_state = None, data = no_data\<rparr>"
proof -
  have s: "py_strip '' Sales '' = ''Sales''" by code_simp
  have r: "role_of ex_env ex_store \<lparr>from_user_id = 1, m_text = '' Sales ''\<rparr> = ROLE_SUPERADMIN"
    by (simp add: role_of_def get_user_role_def ex_env_def)
  have d: "fault ex_store = None" "''Sales'' \<in> set (map d_name (departments (tables ex_store)))"
    by (simp_all add: ex_store_def ex_db_def)
  show ?thesis
    using duplicate_department_aborts [of ex_env ex_store "\<lparr>from_user_id = 1, m_text = '' Sales ''\<rparr>"
        "ex_fsm AddDepartment_waiting_for_name"] s r d
    by simp
qed

subsection \<open>The commit of the manager's accrual flow\<close>

lemma accrual_kind_rejected: "''accrual'' \<notin> set accrual_kinds"
  by (simp add: accrual_kinds_def)

lemma add_accrual_accrual_kind:
  "\<exists>e. add_accrual st now eo ao ''accrual'' c by = (Inl e, [LogError ''add_accrual'' e])"
  by (auto simp: add_accrual_def get_db_def accrual_kinds_def split: option.splits)

lemma accrual_finish_body_never_appends:
  "o_store (accrual_finish_body ev st msg f) = st \<and> o_fsm (accrual_finish_body ev st msg f) = clear f
   \<and> (\<exists>e. o_replies (accrual_finish_body ev st msg f) = [Reply (AccrualError e) ManagerMainKb])"
proof -
  obtain e where
    "add_accrual st (now_iso ev) (employee_id (data f)) (amount (data f)) ''accrual''
       (if py_strip (m_text msg) = [] then ACCRUAL_LABEL else py_strip (m_text msg)) (from_user_id msg)
     = (Inl e, [LogError ''add_accrual'' e])"
    using add_accrual_accrual_kind by blast
  then show ?thesis
    by (simp add: accrual_finish_body_def Let_def)
qed

lemma accrual_finish_never_appends: "o_store (accrual_finish ev st msg f) = st"
proof (cases "get_user_role (cfg ev) st (from_user_id msg)")
  case (Pair role lg)
  then show ?thesis
    using accrual_finish_body_never_appends [of ev st msg f]
    by (simp add: accrual_finish_def require_role_def Let_def)
qed

text \<open>
  Claim C3. The manager Ann (user 100) has chosen Bob (employee 2) and the amount 50000
  and sends the comment. The commit passes the kind "accrual", which the CHECK constraint
  of the table rejects: no record is appended, no period is assigned, the reply is the
  error message and the context is cleared.
\<close>

theorem accrual_finish_commit_fails:
  "accrual_finish ex_env ex_store \<lparr>from_user_id = 100, m_text = ''oklad''\<rparr>
     \<lparr>cur_state = Some Accrual_waiting_for_comment,
      data = no_data\<lparr>employee_id := Some 2, amount := Some 50000\<rparr>\<rparr>
   = \<lparr>o_store = ex_store, o_fsm = \<lparr>cur_state = None, data = no_data\<rparr>,
      o_replies = [Reply (AccrualError IntegrityError) ManagerMainKb],
      o_log = [LogError ''add_accrual'' IntegrityError]\<rparr>"
proof -
  have role: "get_user_role (cfg ex_env) ex_store 100 = (ROLE_MANAGER, [])"
    by (simp add: get_user_role_def get_db_def ex_env_def ex_store_def ex_db_def)
  have add: "add_accrual ex_store (now_iso ex_env) (Some 2) (Some 50000) ''accrual'' c 100
               = (Inl IntegrityError, [LogError ''add_accrual'' IntegrityError])" for c
    by (simp add: add_accrual_def get_db_def ex_store_def accrual_kinds_def)
  show ?thesis
    by (simp add: accrual_finish_def require_role_def role accrual_finish_body_def Let_def add
        clear_def no_data_def)
qed

text \<open>The bonus flow of the employee card, on the same data, appends and assigns the period.\<close>

lemma add_bonus_finish_commits:
  "accruals (tables (o_store (add_bonus_finish ex_env ex_store \<lparr>from_user_id = 100, m_text = ''plan''\<rparr>
     \<lparr>cur_state = Some AddBonus_waiting_for_comment,
      data = no_data\<lparr>current_employee_id := Some 2, bonus_amount := Some 50000\<rparr>\<rparr>)))
   = accruals ex_db @
       [\<lparr>a_id = 3, a_employee_id = 2, a_amount = 50000, a_kind = ''bonus'',
         a_comment = Some ''plan'', a_period = Some ''2025-11'',
         a_created_at = ''2025-11-03T10:00:00+00:00'', a_created_by = Some 100\<rparr>]"
  by code_simp

subsection \<open>The employee step of the manager's accrual flow\<close>

text \<open>
  Claim C2, as stated, fails. Ann (user 100) manages Sales only; Cy (employee 3) works in
  Store. Ann's selection "3: Cy" is outside her scope, yet it is not refused: the flow
  stores the identifier 3 and moves on to the amount step.
\<close>

theorem out_of_scope_selection_accepted:
  "role_of ex_env ex_store \<lparr>from_user_id = 100, m_text = ''3: Cy''\<rparr> = ROLE_MANAGER
   \<and> \<not> in_scope ex_store 100 3
   \<and> o_replies (accrual_choose_employee ex_env ex_store \<lparr>from_user_id = 100, m_text = ''3: Cy''\<rparr>
         (ex_fsm Accrual_waiting_for_employee)) = [Reply AskAccrualAmount KbRemove]
   \<and> o_fsm (accrual_choose_employee ex_env ex_store \<lparr>from_user_id = 100, m_text = ''3: Cy''\<rparr>
         (ex_fsm Accrual_waiting_for_employee))
       = \<lparr>cur_state = Some Accrual_waiting_for_amount, data = no_data\<lparr>employee_id := Some 3\<rparr>\<rparr>"
proof -
  have role: "get_user_role (cfg ex_env) ex_store 100 = (ROLE_MANAGER, [])"
    by (simp add: get_user_role_def get_db_def ex_env_def ex_store_def ex_db_def)
  have scope: "\<not> in_scope ex_store 100 3"
    by code_simp
  have parse: "py_int (before_colon (py_strip ''3: Cy'')) = Some 3"
    by code_simp
  show ?thesis
    using scope
    by (simp add: role_of_def accrual_choose_employee_def require_role_def role
        accrual_choose_employee_body_def Let_def parse ex_fsm_def set_state_def)
qed

text \<open>
  Claim C2, amended. At the employee step of the manager's accrual flow the sender's
  manager role and the format of the text are the only checks: when the text before the
  first colon reads as an integer, that integer is stored as the selected employee and
  the flow moves on to the amount step, whatever department the employee belongs to;
  otherwise the same step is prompted again. In both cases the store is unchanged.
\<close>

theorem accrual_choose_employee_checks_format_only:
  "role_of ev st msg = ROLE_MANAGER \<longrightarrow>
     o_store (accrual_choose_employee ev st msg f) = st
     \<and> (py_int (before_colon (py_strip (m_text msg))) = Some emp \<longrightarrow>
          o_fsm (accrual_choose_employee ev st msg f)
            = \<lparr>cur_state = Some Accrual_waiting_for_amount,
               data = (data f)\<lparr>employee_id := Some emp\<rparr>\<rparr>
          \<and> o_replies (accrual_choose_employee ev st msg f) = [Reply AskAccrualAmount KbRemove])
     \<and> (py_int (before_colon (py_strip (m_text msg))) = None \<longrightarrow>
          reprompts st f (accrual_choose_employee ev st msg f) BadEmployeeFormat)"
proof
  assume "role_of ev st msg = ROLE_MANAGER"
  then have ro: "role_of ev st msg \<in> set [ROLE_MANAGER]" by simp
  note rr = require_role_by_role_of [OF ro, of accrual_choose_employee_body f]
  show "o_store (accrual_choose_employee ev st msg f) = st
     \<and> (py_int (before_colon (py_strip (m_text msg))) = Some emp \<longrightarrow>
          o_fsm (accrual_choose_employee ev st msg f)
            = \<lparr>cur_state = Some Accrual_waiting_for_amount,
               data = (data f)\<lparr>employee_id := Some emp\<rparr>\<rparr>
          \<and> o_replies (accrual_choose_employee ev st msg f) = [Reply AskAccrualAmount KbRemove])
     \<and> (py_int (before_colon (py_strip (m_text msg))) = None \<longrightarrow>
          reprompts st f (accrual_choose_employee ev st msg f) BadEmployeeFormat)"
    unfolding accrual_choose_employee_def reprompts_def
    using rr
    by (cases "py_int (before_colon (py_strip (m_text msg)))")
       (simp_all add: accrual_choose_employee_body_def Let_def set_state_def)
qed

theorem accrual_choose_employee_checks_format_only_witness:
  "role_of ex_env ex_store \<lparr>from_user_id = 100, m_text = ''3: Cy''\<rparr> = ROLE_MANAGER
   \<and> py_int (before_colon (py_strip ''3: Cy'')) = Some 3
   \<and> o_store (accrual_choose_employee ex_env ex_store \<lparr>from_user_id = 100, m_text = ''3: Cy''\<rparr>
         (ex_fsm Accrual_waiting_for_employee)) = ex_store
   \<and> employee_id (data (o_fsm (accrual_choose_employee ex_env ex_store
         \<lparr>from_user_id = 100, m_text = ''3: Cy''\<rparr> (ex_fsm Accrual_waiting_for_employee)))) = Some 3
   \<and> py_int (before_colon (py_strip ''Cy'')) = None
   \<and> reprompts ex_store (ex_fsm Accrual_waiting_for_employee)
        (accrual_choose_employee ex_env ex_store \<lparr>from_user_id = 100, m_text = ''Cy''\<rparr>
           (ex_fsm Accrual_waiting_for_employee)) BadEmployeeFormat"
proof -
  have role: "role_of ex_env ex_store \<lparr>from_user_id = 100, m_text = t\<rparr> = ROLE_MANAGER" for t
    by (simp add: role_of_def get_user_role_def get_db_def ex_env_def ex_store_def ex_db_def)
  have p1: "py_int (before_colon (py_strip ''3: Cy'')) = Some 3"
    and p2: "py_int (before_colon (py_strip ''Cy'')) = None"
    by code_simp+
  show ?thesis
    using accrual_choose_employee_checks_format_only [of ex_env ex_store
        "\<lparr>from_user_id = 100, m_text = ''3: Cy''\<rparr>" "ex_fsm Accrual_waiting_for_employee" 3]
      accrual_choose_employee_checks_format_only [of ex_env ex_store
        "\<lparr>from_user_id = 100, m_text = ''Cy''\<rparr>" "ex_fsm Accrual_waiting_for_employee"]
      role p1 p2
    by simp
qed

subsection \<open>The salary payout\<close>










subsection \<open>The salary step\<close>






subsection \<open>Failed validation\<close>










end
